theory Spec2Isabelle
  imports Complex_Main
begin

section \<open>Values\<close>

text \<open>
  The ride sharing application of \<^verbatim>\<open>rideSharingApp.js\<close> (the second, complete listing of
  the file, with \<^verbatim>\<open>startApp\<close>'s input check and the VIP gate).

  JavaScript numbers are modelled by exact rationals. The amounts the program computes
  (fares \<open>2 * distance\<close>, balances, ratings halved) are small dyadic rationals, on which
  double arithmetic is exact.
\<close>

datatype jsval = JUndefined | JBoolean bool | JNumber rat | JString string

fun typeof :: "jsval \<Rightarrow> string" where
  "typeof JUndefined = ''undefined''"
| "typeof (JBoolean b) = ''boolean''"
| "typeof (JNumber n) = ''number''"
| "typeof (JString s) = ''string''"

fun truthy :: "jsval \<Rightarrow> bool" where
  "truthy JUndefined = False"
| "truthy (JBoolean b) = b"
| "truthy (JNumber n) = (n \<noteq> 0)"
| "truthy (JString s) = (s \<noteq> [])"

datatype error = InitError | TypeError

subsection \<open>Decimal strings\<close>

definition digit_chars :: string where
  "digit_chars = ''0123456789''"

definition isDigit :: "char \<Rightarrow> bool" where
  \<comment> \<open>the regular expression class \<^verbatim>\<open>\d\<close>\<close>
  "isDigit c = (c \<in> set digit_chars)"

fun decimal :: "nat \<Rightarrow> string" where
  \<comment> \<open>\<^verbatim>\<open>Number.prototype.toString\<close> on a non-negative integer, which it prints in full
      below \<open>10^21\<close>; from there on it prints an exponent, and neither string is 16 digits\<close>
  "decimal n = (if n < 10 then [digit_chars ! n]
                else decimal (n div 10) @ [digit_chars ! (n mod 10)])"

declare decimal.simps [simp del]

definition padStart :: "nat \<Rightarrow> char \<Rightarrow> string \<Rightarrow> string" where
  "padStart n c s = replicate (n - length s) c @ s"

text \<open>
  A card number is what the seed data holds, a non-negative integer literal, or a string.
  \<^verbatim>\<open>RegExp.prototype.exec\<close> converts its argument to a string first.
\<close>

datatype CardToken = CardNum nat | CardStr string

fun ToString :: "CardToken \<Rightarrow> string" where
  "ToString (CardNum n) = decimal n"
| "ToString (CardStr s) = s"

fun digits :: "nat \<Rightarrow> string \<Rightarrow> string option" where
  \<comment> \<open>\<^verbatim>\<open>\d{n}\<close> at the start of the input: the rest of the input after \<open>n\<close> digits\<close>
  "digits 0 s = Some s"
| "digits (Suc n) [] = None"
| "digits (Suc n) (c # s) = (if isDigit c then digits n s else None)"

definition regex_exec :: "string \<Rightarrow> bool" where
  \<comment> \<open>\<^verbatim>\<open>/^\d{16}$/g.exec(s)\<close> is not null; the expression is created anew at each call, so
      the search starts at index 0\<close>
  "regex_exec s = (digits 16 s = Some [])"

section \<open>Console and events\<close>

text \<open>
  Every listener that \<^verbatim>\<open>setupListenersPremium\<close> registers prints one line, so an emitted
  event is modelled by the line it prints. The constructors stand for the texts
  "Input should be number!", "App started successfully!", "Error starting the app:",
  "Error fetching drivers: ", "... has requested a ride from ... to ...!",
  "... is a VIP driver and cannot accept the ride from ...! Ride denied!",
  "... has accepted the ride from ...!", "... has denied the ride from ...!",
  "... has paid for the ride!", "... failed to pay!", "... has completed the ride for ...!",
  "... has earned ... points.", and the three tier messages.
\<close>

datatype Msg =
    InputShouldBeNumber
  | AppStarted
  | ErrorStarting error
  | ErrorFetching
  | Requested string "string option" "string option"
  | VIPDenied string string
  | Accepted string string
  | Denied string string
  | Paid string
  | FailedToPay string
  | Completed string string
  | PointsEarned string rat
  | PremiumUserMsg string
  | VIPDriverMsg string
  | RegularDriverMsg string

section \<open>PaymentService.validatePayment\<close>

record PaymentDetails =
  cardNumber :: CardToken
  expirationDate :: rat
  balance :: rat

definition validatePayment :: "PaymentDetails \<Rightarrow> rat \<Rightarrow> bool" where
  "validatePayment paymentDetails fare =
     (if regex_exec (ToString (cardNumber paymentDetails))
         \<and> expirationDate paymentDetails > 20
         \<and> balance paymentDetails \<ge> fare
      then True else False)"

section \<open>Driver\<close>

record Driver =
  d_id :: nat
  d_name :: string
  profit :: rat
  isAvailable :: bool
  isVIP :: bool
  VIPRaiting :: rat

definition new_Driver :: "nat \<Rightarrow> string \<Rightarrow> rat \<Rightarrow> bool \<Rightarrow> Driver" where
  "new_Driver i n p a =
     \<lparr>d_id = i, d_name = n, profit = p, isAvailable = a, isVIP = False, VIPRaiting = 0\<rparr>"

definition upgradetoVIP :: "Driver \<Rightarrow> Driver \<times> Msg list" where
  "upgradetoVIP d = (d\<lparr>isVIP := True\<rparr>, [VIPDriverMsg (d_name d)])"

definition downgradeToRegular :: "Driver \<Rightarrow> Driver \<times> Msg list" where
  "downgradeToRegular d = (d\<lparr>isVIP := False\<rparr>, [RegularDriverMsg (d_name d)])"

definition Driver_checkForUpgrade :: "Driver \<Rightarrow> Driver \<times> Msg list" where
  "Driver_checkForUpgrade d =
     (if VIPRaiting d \<ge> 4 \<and> \<not> isVIP d then upgradetoVIP d
      else if VIPRaiting d < 4 \<and> isVIP d then downgradeToRegular d
      else (d, []))"

definition addRaiting :: "rat \<Rightarrow> Driver \<Rightarrow> Driver \<times> Msg list" where
  "addRaiting raiting d =
     (let d1 = (if VIPRaiting d = 0 then d\<lparr>VIPRaiting := raiting\<rparr> else d);
          d2 = d1\<lparr>VIPRaiting := VIPRaiting d1 + (VIPRaiting d1 + raiting / 2)\<rparr>
      in Driver_checkForUpgrade d2)"

fun addRaitings :: "rat list \<Rightarrow> Driver \<Rightarrow> Driver" where
  \<comment> \<open>a sequence of \<^verbatim>\<open>addRaiting\<close> calls on one driver\<close>
  "addRaitings [] d = d"
| "addRaitings (r # rs) d = addRaitings rs (fst (addRaiting r d))"

section \<open>User\<close>

type_synonym ref = nat

record User =
  u_id :: string
  u_name :: string
  paymentDetails :: ref
  inRide :: bool
  premiumPoints :: rat
  isPremium :: bool

text \<open>
  \<open>paymentDetails\<close> is a reference to the payment details object the constructor was
  given. The seed data passes \<^verbatim>\<open>false\<close> for \<^verbatim>\<open>premiumPoints\<close>, which \<^verbatim>\<open>+=\<close> reads as 0.
\<close>

definition new_User :: "string \<Rightarrow> string \<Rightarrow> ref \<Rightarrow> bool \<Rightarrow> rat \<Rightarrow> User" where
  "new_User i n pd r pts =
     \<lparr>u_id = i, u_name = n, paymentDetails = pd, inRide = r, premiumPoints = pts,
      isPremium = False\<rparr>"

definition new_PremiumUser :: "string \<Rightarrow> string \<Rightarrow> ref \<Rightarrow> bool \<Rightarrow> rat \<Rightarrow> User" where
  "new_PremiumUser i n pd r pts = (new_User i n pd r pts)\<lparr>isPremium := True\<rparr>"

definition getDiscount :: "User \<Rightarrow> rat" where
  \<comment> \<open>\<^verbatim>\<open>PremiumUser.getDiscount\<close>; no function of the program calls it\<close>
  "getDiscount u = 1 / 10"

definition User_PremiumUser :: "User \<Rightarrow> jsval" where
  \<comment> \<open>reading the property \<^verbatim>\<open>PremiumUser\<close> of a user object: no constructor and no method
      of \<^verbatim>\<open>User\<close> or \<^verbatim>\<open>PremiumUser\<close> assigns a property of that name\<close>
  "User_PremiumUser u = JUndefined"

definition upgradeToPremium :: "User \<Rightarrow> User \<times> Msg list" where
  "upgradeToPremium u = (u\<lparr>isPremium := True\<rparr>, [PremiumUserMsg (u_name u)])"

definition User_checkForUpgrade :: "User \<Rightarrow> User \<times> Msg list" where
  "User_checkForUpgrade u =
     (if premiumPoints u \<ge> 50 \<and> \<not> isPremium u then upgradeToPremium u else (u, []))"

definition addPoints :: "rat \<Rightarrow> User \<Rightarrow> User \<times> Msg list" where
  "addPoints points u =
     (let u1 = u\<lparr>premiumPoints := premiumPoints u + points\<rparr>;
          (u2, ms) = User_checkForUpgrade u1
      in (u2, PointsEarned (u_name u) points # ms))"

fun addPointsSeq :: "rat list \<Rightarrow> User \<Rightarrow> User \<times> Msg list" where
  \<comment> \<open>a sequence of \<^verbatim>\<open>addPoints\<close> calls on one rider, with everything printed\<close>
  "addPointsSeq [] u = (u, [])"
| "addPointsSeq (p # ps) u =
     (let (u1, ms1) = addPoints p u; (u2, ms2) = addPointsSeq ps u1 in (u2, ms1 @ ms2))"

section \<open>Ride\<close>

text \<open>
  A ride refers to its rider and its driver; either reference is \<^verbatim>\<open>undefined\<close> (\<open>None\<close>)
  when \<^verbatim>\<open>randomIndexMethod\<close> was given an empty array.
\<close>

record Ride =
  rideId :: string
  pickUp :: "string option"
  dropOff :: "string option"
  fare :: rat
  status :: string
  distance :: rat
  user :: "ref option"
  driver :: "ref option"

section \<open>The application state\<close>

text \<open>
  Riders, drivers, payment details and rides are objects that the program shares by
  reference and mutates in place: each kind lives in a store, and the arrays of the
  application hold references. A timer is the closure that \<^verbatim>\<open>rideCompleted\<close> hands to
  \<^verbatim>\<open>setTimeout\<close>, with the variables it captures and the time at which it fires. Time is
  virtual, in milliseconds; synchronous code takes no time.
\<close>

record Timer =
  fireAt :: nat
  t_user :: "ref option"
  t_driver :: "ref option"
  t_ride :: ref
  t_raiting :: rat

record AppState =
  users :: "ref list"
  locations :: "string list"
  drivers :: "ref list"
  rides :: "ref list"
  userStore :: "ref \<Rightarrow> User"
  driverStore :: "ref \<Rightarrow> Driver"
  payStore :: "ref \<Rightarrow> PaymentDetails"
  rideStore :: "ref \<Rightarrow> Ride"
  nextRef :: ref
  timers :: "Timer list"
  now :: nat
  randomCalls :: nat
  console :: "Msg list"

definition console_log :: "Msg list \<Rightarrow> AppState \<Rightarrow> AppState" where
  "console_log ms s = s\<lparr>console := console s @ ms\<rparr>"

definition updUser :: "ref \<Rightarrow> (User \<Rightarrow> User) \<Rightarrow> AppState \<Rightarrow> AppState" where
  "updUser u f s = s\<lparr>userStore := (userStore s)(u := f (userStore s u))\<rparr>"

definition updDriver :: "ref \<Rightarrow> (Driver \<Rightarrow> Driver) \<Rightarrow> AppState \<Rightarrow> AppState" where
  "updDriver d f s = s\<lparr>driverStore := (driverStore s)(d := f (driverStore s d))\<rparr>"

definition updPay :: "ref \<Rightarrow> (PaymentDetails \<Rightarrow> PaymentDetails) \<Rightarrow> AppState \<Rightarrow> AppState" where
  "updPay p f s = s\<lparr>payStore := (payStore s)(p := f (payStore s p))\<rparr>"

definition updRide :: "ref \<Rightarrow> (Ride \<Rightarrow> Ride) \<Rightarrow> AppState \<Rightarrow> AppState" where
  "updRide r f s = s\<lparr>rideStore := (rideStore s)(r := f (rideStore s r))\<rparr>"

subsection \<open>Random choices\<close>

text \<open>
  \<^verbatim>\<open>Math.random()\<close> returns a number in \<open>[0, 1)\<close>: the \<open>k\<close>-th call of a run returns the
  fractional part of \<open>rnd k\<close>, for a sequence \<open>rnd\<close> that the run is given.
\<close>

definition Math_random :: "(nat \<Rightarrow> rat) \<Rightarrow> AppState \<Rightarrow> rat \<times> AppState" where
  "Math_random rnd s = (frac (rnd (randomCalls s)), s\<lparr>randomCalls := Suc (randomCalls s)\<rparr>)"

definition randomIndexMethod :: "(nat \<Rightarrow> rat) \<Rightarrow> 'a list \<Rightarrow> AppState \<Rightarrow> 'a option \<times> AppState" where
  \<comment> \<open>reading an array beyond its end gives \<^verbatim>\<open>undefined\<close>\<close>
  "randomIndexMethod rnd array s =
     (let (r, s1) = Math_random rnd s;
          randomIndex = nat \<lfloor>r * of_nat (length array)\<rfloor>
      in (if randomIndex < length array then Some (array ! randomIndex) else None, s1))"

subsection \<open>RideFactory\<close>

definition rideRequest ::
  "(nat \<Rightarrow> rat) \<Rightarrow> string option \<Rightarrow> string option \<Rightarrow> ref option \<Rightarrow> ref option
     \<Rightarrow> AppState \<Rightarrow> Ride \<times> AppState" where
  "rideRequest rnd pickUp' dropOff' user' driver' s =
     (let (r1, s1) = Math_random rnd s;
          distance' = of_int \<lfloor>r1 * 100\<rfloor> + 1;
          fare' = distance' * 2;
          (r2, s2) = Math_random rnd s1;
          rideId' = padStart 10 (CHR ''0'') (decimal (nat \<lfloor>r2 * 1000000\<rfloor>))
      in (\<lparr>rideId = rideId', pickUp = pickUp', dropOff = dropOff', fare = fare',
           status = ''requested'', distance = distance', user = user', driver = driver'\<rparr>, s2))"

subsection \<open>PaymentService.processPayment and RideSharingApp.payment\<close>

definition processPayment :: "ref \<Rightarrow> rat \<Rightarrow> ref option \<Rightarrow> AppState \<Rightarrow> error option \<times> AppState" where
  \<comment> \<open>the rider is debited first; with an undefined driver the second statement throws\<close>
  "processPayment user' fare' driver' s =
     (let s1 = updPay (paymentDetails (userStore s user')) (\<lambda>p. p\<lparr>balance := balance p - fare'\<rparr>) s
      in case driver' of
           None \<Rightarrow> (Some TypeError, s1)
         | Some d \<Rightarrow> (None, updDriver d (\<lambda>x. x\<lparr>profit := profit x + fare'\<rparr>) s1))"

definition payment :: "ref \<Rightarrow> AppState \<Rightarrow> (error + bool) \<times> AppState" where
  "payment ride s =
     (let r = rideStore s ride in
      case user r of
        None \<Rightarrow> (Inl TypeError, s)
      | Some u \<Rightarrow>
          (let isValidPayment =
                 validatePayment (payStore s (paymentDetails (userStore s u))) (fare r)
           in if isValidPayment then
                (case processPayment u (fare r) (driver r) s of
                   (Some e, s1) \<Rightarrow> (Inl e, s1)
                 | (None, s1) \<Rightarrow> (Inr True, console_log [Paid (u_name (userStore s1 u))] s1))
              else (Inr False, console_log [FailedToPay (u_name (userStore s u))] s)))"

subsection \<open>Completion of a ride\<close>

definition timeoutDelay :: "rat \<Rightarrow> nat" where
  \<comment> \<open>\<^verbatim>\<open>setTimeout\<close> takes a delay outside \<open>[1, 2^31 - 1]\<close> as 1\<close>
  "timeoutDelay d = (if 1 \<le> d \<and> d \<le> 2147483647 then nat \<lfloor>d\<rfloor> else 1)"

definition rideCompleted :: "(nat \<Rightarrow> rat) \<Rightarrow> ref \<Rightarrow> AppState \<Rightarrow> AppState" where
  "rideCompleted rnd ride s =
     (let r = rideStore s ride;
          duration = distance r * 100;
          (x, s1) = Math_random rnd s;
          raiting = of_int \<lfloor>x * 5\<rfloor> + 1
      in s1\<lparr>timers := timers s1 @
              [\<lparr>fireAt = now s1 + timeoutDelay duration, t_user = user r, t_driver = driver r,
                t_ride = ride, t_raiting = raiting\<rparr>]\<rparr>)"

definition completeRide :: "Timer \<Rightarrow> AppState \<Rightarrow> AppState" where
  \<comment> \<open>the callback of \<^verbatim>\<open>rideCompleted\<close>; an undefined rider or driver ends it with an exception
      that nothing catches\<close>
  "completeRide t s =
     (case t_user t of
        None \<Rightarrow> s
      | Some u \<Rightarrow>
          (let s1 = updUser u (\<lambda>x. x\<lparr>inRide := False\<rparr>) s in
           case t_driver t of
             None \<Rightarrow> s1
           | Some d \<Rightarrow>
               (let s2 = updDriver d (\<lambda>x. x\<lparr>isAvailable := True\<rparr>) s1;
                    s3 = updRide (t_ride t) (\<lambda>x. x\<lparr>status := ''completed''\<rparr>) s2;
                    s4 = console_log [Completed (d_name (driverStore s3 d)) (u_name (userStore s3 u))] s3;
                    (d', ms) = addRaiting (t_raiting t) (driverStore s4 d)
                in console_log ms (updDriver d (\<lambda>x. d') s4))))"

definition advance :: "nat \<Rightarrow> AppState \<Rightarrow> AppState" where
  \<comment> \<open>let virtual time pass until \<open>t\<close>: the timers due fire in the order of their times,
      timers of one time in the order they were set\<close>
  "advance t s =
     (let due = sort_key fireAt (filter (\<lambda>x. fireAt x \<le> t) (timers s));
          s1 = s\<lparr>timers := filter (\<lambda>x. \<not> fireAt x \<le> t) (timers s)\<rparr>
      in (foldl (\<lambda>a x. completeRide x (a\<lparr>now := fireAt x\<rparr>)) s1 due)\<lparr>now := t\<rparr>)"

subsection \<open>generateRides\<close>

definition generateRide :: "(nat \<Rightarrow> rat) \<Rightarrow> AppState \<Rightarrow> (error + ref) \<times> AppState" where
  \<comment> \<open>one turn of the generator's loop, up to its \<^verbatim>\<open>yield\<close>\<close>
  "generateRide rnd s =
     (if length (locations s) = 0 \<or> length (users s) = 0 \<or> length (drivers s) = 0
      then (Inl InitError, s)
      else
        (let (pickUp', s1) = randomIndexMethod rnd (locations s) s;
             (dropOff', s2) = randomIndexMethod rnd (locations s1) s1;
             (user', s3) = randomIndexMethod rnd
                             (filter (\<lambda>u. \<not> inRide (userStore s2 u)) (users s2)) s2;
             (driver', s4) = randomIndexMethod rnd
                               (filter (\<lambda>d. isAvailable (driverStore s3 d)) (drivers s3)) s3;
             (ride, s5) = rideRequest rnd pickUp' dropOff' user' driver' s4;
             r = nextRef s5;
             s6 = s5\<lparr>rideStore := (rideStore s5)(r := ride), nextRef := Suc r,
                     rides := rides s5 @ [r]\<rparr>
         in case user' of
              None \<Rightarrow> (Inl TypeError, s6)
            | Some u \<Rightarrow> (Inr r, console_log [Requested (u_name (userStore s6 u)) pickUp' dropOff'] s6)))"

subsection \<open>processMultipleRides\<close>

definition User_addPoints :: "ref \<Rightarrow> rat \<Rightarrow> AppState \<Rightarrow> AppState" where
  \<comment> \<open>\<^verbatim>\<open>user.addPoints(points, this.eventEmitter)\<close> on the rider object in the store\<close>
  "User_addPoints u points s =
     (let (u', ms) = addPoints points (userStore s u) in console_log ms (updUser u (\<lambda>x. u') s))"

definition processRide :: "(nat \<Rightarrow> rat) \<Rightarrow> ref \<Rightarrow> AppState \<Rightarrow> error option \<times> AppState" where
  \<comment> \<open>the body of the \<^verbatim>\<open>for await\<close> loop. \<open>payment\<close> has thrown already when the ride has
      no rider, so the case \<open>user r = None\<close> below is never reached\<close>
  "processRide rnd ride s =
     (case payment ride s of
        (Inl e, s1) \<Rightarrow> (Some e, s1)
      | (Inr paymentSuccess, s1) \<Rightarrow>
          (let r = rideStore s1 ride in
           case driver r of
             None \<Rightarrow> (Some TypeError, s1)
           | Some d \<Rightarrow>
              (case user r of
                 None \<Rightarrow> (Some TypeError, s1)
               | Some u \<Rightarrow>
                   if isVIP (driverStore s1 d) \<and> \<not> truthy (User_PremiumUser (userStore s1 u))
                   then (None, console_log [VIPDenied (d_name (driverStore s1 d)) (u_name (userStore s1 u))] s1)
                   else if paymentSuccess then
                     (let s2 = updDriver d (\<lambda>x. x\<lparr>isAvailable := False\<rparr>) s1;
                          s3 = updUser u (\<lambda>x. x\<lparr>inRide := True\<rparr>) s2;
                          s4 = updRide ride (\<lambda>x. x\<lparr>status := ''active''\<rparr>) s3;
                          s5 = console_log [Accepted (d_name (driverStore s4 d)) (u_name (userStore s4 u))] s4;
                          s6 = User_addPoints u (distance (rideStore s5 ride)) s5
                      in (None, rideCompleted rnd ride s6))
                   else (None, console_log [Denied (d_name (driverStore s1 d)) (u_name (userStore s1 u))] s1))))"

function rideLoop :: "(nat \<Rightarrow> rat) \<Rightarrow> nat \<Rightarrow> rat \<Rightarrow> AppState \<Rightarrow> error option \<times> AppState" where
  \<comment> \<open>the generator's \<^verbatim>\<open>for (let i = 0; i < numRides; i++)\<close> driven by \<^verbatim>\<open>for await\<close>: each
      ride is handed over 2000 ms after it was generated\<close>
  "rideLoop rnd i numRides s =
     (if of_nat i < numRides then
        (case generateRide rnd s of
           (Inl e, s1) \<Rightarrow> (Some e, s1)
         | (Inr ride, s1) \<Rightarrow>
             (case processRide rnd ride (advance (now s1 + 2000) s1) of
                (Some e, s2) \<Rightarrow> (Some e, s2)
              | (None, s2) \<Rightarrow> rideLoop rnd (Suc i) numRides s2))
      else (None, s))"
  by pat_completeness auto
termination
  by (relation "measure (\<lambda>(rnd, i, numRides, s). nat \<lceil>numRides - of_nat i\<rceil>)") (auto, linarith)

declare rideLoop.simps [simp del]

definition processMultipleRides :: "(nat \<Rightarrow> rat) \<Rightarrow> rat \<Rightarrow> AppState \<Rightarrow> error option \<times> AppState" where
  "processMultipleRides rnd numRides s = rideLoop rnd 0 numRides s"

subsection \<open>fetchDrivers and startApp\<close>

text \<open>
  What the directory service answers is a parameter of the run: a failure (no
  connection, a status that is not ok, a body that is not JSON) or the records, of which
  \<^verbatim>\<open>id\<close> and \<^verbatim>\<open>name\<close> are read; so is the time the answer takes.
\<close>

datatype Response = FetchFailed | FetchOk "(nat \<times> string) list"

definition fetchDrivers :: "nat \<Rightarrow> Response \<Rightarrow> AppState \<Rightarrow> AppState" where
  "fetchDrivers latency response s =
     (let s1 = advance (now s + latency) s in
      case response of
        FetchFailed \<Rightarrow> console_log [ErrorFetching] s1
      | FetchOk driversData \<Rightarrow>
          (let base = nextRef s1;
               n = length driversData
           in s1\<lparr>drivers := map (\<lambda>k. base + k) [0..<n],
                 driverStore := (\<lambda>x. if base \<le> x \<and> x < base + n
                                      then new_Driver (fst (driversData ! (x - base)))
                                             (snd (driversData ! (x - base))) 0 True
                                      else driverStore s1 x),
                 nextRef := base + n\<rparr>))"

fun numberValue :: "jsval \<Rightarrow> rat" where
  \<comment> \<open>the number that a value of type number is; a value of type number that is not a
      rational (\<^verbatim>\<open>NaN\<close>, an infinity) is outside the model\<close>
  "numberValue (JNumber n) = n"
| "numberValue _ = 0"

definition startApp :: "(nat \<Rightarrow> rat) \<Rightarrow> nat \<Rightarrow> Response \<Rightarrow> jsval \<Rightarrow> AppState \<Rightarrow> AppState" where
  \<comment> \<open>\<^verbatim>\<open>catch\<close> prints what the batch threw\<close>
  "startApp rnd latency response numRides s =
     (if typeof numRides \<noteq> ''number'' then console_log [InputShouldBeNumber] s
      else
        (let s1 = console_log [AppStarted] s;
             s2 = fetchDrivers latency response s1
         in case processMultipleRides rnd (numberValue numRides) s2 of
              (Some e, s3) \<Rightarrow> console_log [ErrorStarting e] s3
            | (None, s3) \<Rightarrow> s3))"

subsection \<open>A ride with one rider and one driver\<close>

text \<open>
  The first rider of the seed data, \<^verbatim>\<open>u1\<close>, with a given tier, busy flag, balance and card
  number, one available driver with a given tier, and one registered ride of distance 50
  and fare 100 between them.
\<close>

definition oneRide :: "bool \<Rightarrow> bool \<Rightarrow> bool \<Rightarrow> rat \<Rightarrow> CardToken \<Rightarrow> AppState" where
  "oneRide premium busy vip bal token =
     \<lparr>users = [0], locations = [''Location 1''], drivers = [0], rides = [0],
      userStore = (\<lambda>x. (new_User ''u1'' ''Olivia Martinez'' 0 busy 0)\<lparr>isPremium := premium\<rparr>),
      driverStore = (\<lambda>x. (new_Driver 1 ''Leanne Graham'' 0 True)\<lparr>isVIP := vip\<rparr>),
      payStore = (\<lambda>x. \<lparr>cardNumber = token, expirationDate = 111, balance = bal\<rparr>),
      rideStore = (\<lambda>x. \<lparr>rideId = ''0000000042'', pickUp = Some ''Location 1'',
                         dropOff = Some ''Location 1'', fare = 100, status = ''requested'',
                         distance = 50, user = Some 0, driver = Some 0\<rparr>),
      nextRef = 1, timers = [], now = 0, randomCalls = 0, console = []\<rparr>"

definition acceptedRide :: AppState where
  \<comment> \<open>that ride, of a Standard rider and a Regular driver, after the loop body has run\<close>
  "acceptedRide =
     snd (processRide (\<lambda>k. 1 / 2) 0 (oneRide False False False 1000 (CardNum 1234567890123456)))"

subsection \<open>What a step of the run leaves alone\<close>

definition keeps :: "AppState \<Rightarrow> AppState \<Rightarrow> bool" where
  \<comment> \<open>from \<open>s\<close> to \<open>s'\<close> the array of drivers is the same and the console has only grown\<close>
  "keeps s s' = (drivers s' = drivers s \<and> (\<exists>ms. console s' = console s @ ms))"

section \<open>Payment validation\<close>

lemma digits_all: "digits n s = Some [] \<longleftrightarrow> length s = n \<and> list_all isDigit s"
  by (induction n s rule: digits.induct) auto

lemma isDigit_digit: "k < 10 \<Longrightarrow> isDigit (digit_chars ! k)"
proof -
  assume "k < 10"
  then have "k < length digit_chars" by (simp add: digit_chars_def)
  then show ?thesis unfolding isDigit_def by (rule nth_mem)
qed

lemma decimal_nonempty: "decimal n \<noteq> []"
  by (subst decimal.simps) simp

lemma decimal_digits: "list_all isDigit (decimal n)"
proof (induction n rule: decimal.induct)
  case (1 n)
  show ?case
  proof (cases "n < 10")
    case True
    then show ?thesis by (subst decimal.simps) (simp add: isDigit_digit)
  next
    case False
    with 1 show ?thesis by (subst decimal.simps) (simp add: isDigit_digit)
  qed
qed

lemma decimal_length: "0 < k \<Longrightarrow> length (decimal n) \<le> k \<longleftrightarrow> n < 10 ^ k"
proof (induction n arbitrary: k rule: decimal.induct)
  case (1 n)
  show ?case
  proof (cases "n < 10")
    case True
    have "(10::nat) ^ 1 \<le> 10 ^ k" using 1(2) by (intro power_increasing) auto
    with True 1(2) show ?thesis by (subst decimal.simps) auto
  next
    case False
    show ?thesis
    proof (cases k)
      case 0
      with 1(2) show ?thesis by simp
    next
      case (Suc j)
      show ?thesis
      proof (cases "j = 0")
        case True
        with False Suc show ?thesis by (subst decimal.simps) (simp add: decimal_nonempty)
      next
        case F: False
        then have "length (decimal (n div 10)) \<le> j \<longleftrightarrow> n div 10 < 10 ^ j"
          using 1(1)[OF False, of j] by simp
        moreover have "n div 10 < 10 ^ j \<longleftrightarrow> n < 10 ^ Suc j"
          by (simp add: div_less_iff_less_mult mult.commute)
        ultimately show ?thesis using False Suc by (subst decimal.simps) simp
      qed
    qed
  qed
qed

lemma decimal_length16: "length (decimal n) = 16 \<longleftrightarrow> 10 ^ 15 \<le> n \<and> n < 10 ^ 16"
proof -
  have a: "length (decimal n) \<le> 16 \<longleftrightarrow> n < 10 ^ 16" by (rule decimal_length) simp
  have b: "length (decimal n) \<le> 15 \<longleftrightarrow> n < 10 ^ 15" by (rule decimal_length) simp
  show ?thesis using a b by linarith
qed

lemma validatePayment_num:
  "validatePayment \<lparr>cardNumber = CardNum n, expirationDate = e, balance = b\<rparr> f \<longleftrightarrow>
     10 ^ 15 \<le> n \<and> n < 10 ^ 16 \<and> e > 20 \<and> b \<ge> f"
  by (simp add: validatePayment_def regex_exec_def digits_all decimal_length16 decimal_digits)

text \<open>
  Claim C6. \<open>validatePayment\<close> succeeds exactly when the card number, as a string, is 16
  digits and nothing else, the expiration date exceeds 20 and the balance is at least
  the fare. For a numeric card number that is a number of 16 decimal digits. The
  15-digit card number of the seed rider \<^verbatim>\<open>u2\<close> is rejected whatever the balance; with a
  16-digit number and a valid date, a balance equal to the fare passes and a balance one
  below the fare fails.
\<close>

theorem validatePayment_iff:
  "(validatePayment pd fare' \<longleftrightarrow>
      length (ToString (cardNumber pd)) = 16 \<and> list_all isDigit (ToString (cardNumber pd))
      \<and> expirationDate pd > 20 \<and> balance pd \<ge> fare')
   \<and> (validatePayment \<lparr>cardNumber = CardNum n, expirationDate = e, balance = b\<rparr> fare' \<longleftrightarrow>
        10 ^ 15 \<le> n \<and> n < 10 ^ 16 \<and> e > 20 \<and> b \<ge> fare')
   \<and> validatePayment
        \<lparr>cardNumber = CardNum 123456789012345, expirationDate = e, balance = b\<rparr> fare' = False
   \<and> validatePayment
        \<lparr>cardNumber = CardNum 1234567890123456, expirationDate = 111, balance = fare'\<rparr> fare'
       = True
   \<and> validatePayment
        \<lparr>cardNumber = CardNum 1234567890123456, expirationDate = 111, balance = fare' - 1\<rparr> fare'
       = False"
  by (simp add: validatePayment_def regex_exec_def digits_all decimal_length16 decimal_digits)

section \<open>Driver ratings\<close>

lemma addRaiting_score:
  "VIPRaiting (fst (addRaiting r d)) =
     (if VIPRaiting d = 0 then r + r + r / 2 else VIPRaiting d + VIPRaiting d + r / 2)"
  by (simp add: addRaiting_def Driver_checkForUpgrade_def upgradetoVIP_def
      downgradeToRegular_def Let_def)

lemma addRaiting_flag: "isVIP (fst (addRaiting r d)) = (VIPRaiting (fst (addRaiting r d)) \<ge> 4)"
  by (auto simp add: addRaiting_def Driver_checkForUpgrade_def upgradetoVIP_def
      downgradeToRegular_def Let_def)

lemma addRaitings_snoc: "addRaitings (rs @ [r]) d = fst (addRaiting r (addRaitings rs d))"
  by (induction rs arbitrary: d) simp_all

text \<open>
  Claim C4, as the claim states it, fails: the first rating 3 of a new driver leaves the
  score 7.5, not 3. \<open>addRaiting\<close> stores the first rating and then runs the update on it
  as on every other call.
\<close>

theorem addRaiting_first_counterexample:
  "VIPRaiting (fst (addRaiting 3 (new_Driver 1 ''Leanne Graham'' 0 True))) = 15 / 2
   \<and> VIPRaiting (fst (addRaiting 3 (new_Driver 1 ''Leanne Graham'' 0 True))) \<noteq> 3"
  by (simp add: addRaiting_score new_Driver_def)

text \<open>
  Claim C4, amended. A rating \<open>r\<close> given at score 0 sets the score to \<open>r + r + r/2\<close>; a
  rating given at any other score \<open>s\<close> sets it to \<open>s + s + r/2\<close>. The ratings 3, 4, 2
  of a new driver give the scores 7.5, 17 and 35.
\<close>

theorem addRaiting_recurrence:
  "VIPRaiting (fst (addRaiting r d)) =
     (if VIPRaiting d = 0 then r + r + r / 2 else VIPRaiting d + VIPRaiting d + r / 2)
   \<and> VIPRaiting (addRaitings [3] (new_Driver i n p a)) = 15 / 2
   \<and> VIPRaiting (addRaitings [3, 4] (new_Driver i n p a)) = 17
   \<and> VIPRaiting (addRaitings [3, 4, 2] (new_Driver i n p a)) = 35"
  by (simp add: addRaiting_score new_Driver_def)

text \<open>
  Claim C9. After every \<open>addRaiting\<close> call, on any driver, the VIP flag equals
  (score \<open>\<ge>\<close> 4): it is raised when the score is at least 4 and lowered when the score is
  below 4. A driver made by the constructor satisfies the equation before the first
  rating and after every sequence of ratings.
\<close>

theorem addRaiting_isVIP_iff:
  "isVIP (fst (addRaiting r d)) = (VIPRaiting (fst (addRaiting r d)) \<ge> 4)
   \<and> isVIP (addRaitings rs (new_Driver i n p a))
       = (VIPRaiting (addRaitings rs (new_Driver i n p a)) \<ge> 4)"
proof
  show "isVIP (fst (addRaiting r d)) = (VIPRaiting (fst (addRaiting r d)) \<ge> 4)"
    by (rule addRaiting_flag)
  show "isVIP (addRaitings rs (new_Driver i n p a))
          = (VIPRaiting (addRaitings rs (new_Driver i n p a)) \<ge> 4)"
  proof (cases rs rule: rev_cases)
    case Nil
    then show ?thesis by (simp add: new_Driver_def)
  next
    case (snoc ys y)
    then show ?thesis by (simp add: addRaitings_snoc addRaiting_flag)
  qed
qed

section \<open>Rider points\<close>

lemma addPoints_isPremium:
  "isPremium (fst (addPoints p u)) \<longleftrightarrow> isPremium u \<or> premiumPoints u + p \<ge> 50"
  by (auto simp add: addPoints_def User_checkForUpgrade_def upgradeToPremium_def Let_def)

lemma addPoints_points: "premiumPoints (fst (addPoints p u)) = premiumPoints u + p"
  by (simp add: addPoints_def User_checkForUpgrade_def upgradeToPremium_def Let_def)

lemma addPoints_name: "u_name (fst (addPoints p u)) = u_name u"
  by (simp add: addPoints_def User_checkForUpgrade_def upgradeToPremium_def Let_def)

lemma addPoints_msgs:
  "snd (addPoints p u) =
     PointsEarned (u_name u) p #
       (if premiumPoints u + p \<ge> 50 \<and> \<not> isPremium u then [PremiumUserMsg (u_name u)] else [])"
  by (simp add: addPoints_def User_checkForUpgrade_def upgradeToPremium_def Let_def)

lemma addPointsSeq_premium:
  "isPremium u \<Longrightarrow>
     isPremium (fst (addPointsSeq ps u))
     \<and> filter (\<lambda>m. m = PremiumUserMsg n) (snd (addPointsSeq ps u)) = []"
proof (induction ps arbitrary: u)
  case Nil
  then show ?case by simp
next
  case (Cons p ps)
  have "isPremium (fst (addPoints p u))" using Cons.prems by (simp add: addPoints_isPremium)
  from Cons.IH[OF this] Cons.prems show ?case
    by (simp add: split_beta addPoints_msgs)
qed

lemma addPointsSeq_name: "u_name (fst (addPointsSeq ps u)) = u_name u"
  by (induction ps arbitrary: u) (simp_all add: split_beta addPoints_name)

lemma addPointsSeq_standard:
  "\<not> isPremium u \<Longrightarrow>
     (isPremium (fst (addPointsSeq ps u)) \<longleftrightarrow>
        (\<exists>k. 0 < k \<and> k \<le> length ps \<and> premiumPoints (fst (addPointsSeq (take k ps) u)) \<ge> 50))
     \<and> length (filter (\<lambda>m. m = PremiumUserMsg (u_name u)) (snd (addPointsSeq ps u)))
         = (if isPremium (fst (addPointsSeq ps u)) then 1 else 0)"
proof (induction ps arbitrary: u)
  case Nil
  then show ?case by simp
next
  case (Cons p ps)
  let ?u1 = "fst (addPoints p u)"
  show ?case
  proof (cases "isPremium ?u1")
    case True
    then have reach: "premiumPoints u + p \<ge> 50" using Cons.prems by (simp add: addPoints_isPremium)
    have stay: "isPremium (fst (addPointsSeq ps ?u1))"
      and none: "filter (\<lambda>m. m = PremiumUserMsg (u_name u)) (snd (addPointsSeq ps ?u1)) = []"
      using addPointsSeq_premium[OF True] by auto
    have "premiumPoints (fst (addPointsSeq (take 1 (p # ps)) u)) \<ge> 50"
      using reach by (simp add: split_beta addPoints_points)
    then have ex: "\<exists>k. 0 < k \<and> k \<le> length (p # ps)
        \<and> premiumPoints (fst (addPointsSeq (take k (p # ps)) u)) \<ge> 50"
      by (intro exI[of _ 1]) simp
    show ?thesis using stay none ex reach Cons.prems
      by (simp add: split_beta addPoints_msgs)
  next
    case False
    then have low: "\<not> premiumPoints u + p \<ge> 50" by (simp add: addPoints_isPremium)
    note IH = Cons.IH[OF False]
    have "(\<exists>k. 0 < k \<and> k \<le> length (p # ps)
             \<and> premiumPoints (fst (addPointsSeq (take k (p # ps)) u)) \<ge> 50)
          \<longleftrightarrow> (\<exists>k. 0 < k \<and> k \<le> length ps
             \<and> premiumPoints (fst (addPointsSeq (take k ps) ?u1)) \<ge> 50)" (is "?L \<longleftrightarrow> ?R")
    proof
      assume ?L
      then obtain k where k: "0 < k" "k \<le> length (p # ps)"
        "premiumPoints (fst (addPointsSeq (take k (p # ps)) u)) \<ge> 50" by blast
      then obtain j where j: "k = Suc j" by (cases k) auto
      have "0 < j"
      proof (rule ccontr)
        assume "\<not> 0 < j"
        then have "j = 0" by simp
        then show False using k(3) low j by (simp add: split_beta addPoints_points)
      qed
      with k j have "0 < j \<and> j \<le> length ps
          \<and> premiumPoints (fst (addPointsSeq (take j ps) ?u1)) \<ge> 50"
        by (simp add: split_beta)
      then show ?R by blast
    next
      assume ?R
      then obtain k where k: "0 < k" "k \<le> length ps"
        "premiumPoints (fst (addPointsSeq (take k ps) ?u1)) \<ge> 50" by blast
      then have "0 < Suc k \<and> Suc k \<le> length (p # ps)
          \<and> premiumPoints (fst (addPointsSeq (take (Suc k) (p # ps)) u)) \<ge> 50"
        by (simp add: split_beta)
      then show ?L by blast
    qed
    then show ?thesis using IH low
      by (simp add: split_beta addPoints_msgs addPoints_name)
  qed
qed

text \<open>
  Claim C8. A Premium rider stays Premium through every \<open>addPoints\<close> call. A rider who
  is not Premium is Premium after a sequence of calls exactly when the accumulated points
  were at least 50 after one of the calls, so the flag is raised at the first such call
  and stays; the upgrade is announced once in that case and never otherwise.
\<close>

theorem addPoints_premium_once:
  "(isPremium v \<longrightarrow> isPremium (fst (addPoints p v)) \<and> isPremium (fst (addPointsSeq qs v)))
   \<and> (\<not> isPremium u \<longrightarrow>
        (isPremium (fst (addPointsSeq ps u)) \<longleftrightarrow>
           (\<exists>k. 0 < k \<and> k \<le> length ps
              \<and> premiumPoints (fst (addPointsSeq (take k ps) u)) \<ge> 50))
        \<and> length (filter (\<lambda>m. m = PremiumUserMsg (u_name u)) (snd (addPointsSeq ps u)))
            = (if isPremium (fst (addPointsSeq ps u)) then 1 else 0))"
  using addPointsSeq_standard[of u ps] addPointsSeq_premium[of v qs]
  by (simp add: addPoints_isPremium)

theorem addPoints_premium_once_witness:
  "isPremium (new_PremiumUser ''u0'' ''Ann'' 0 False 0)
   \<and> isPremium (fst (addPoints 10 (new_PremiumUser ''u0'' ''Ann'' 0 False 0)))
   \<and> \<not> isPremium (new_User ''u1'' ''Olivia Martinez'' 0 False 0)
   \<and> isPremium (fst (addPointsSeq [30, 30, 5] (new_User ''u1'' ''Olivia Martinez'' 0 False 0)))
   \<and> \<not> isPremium (fst (addPointsSeq [30] (new_User ''u1'' ''Olivia Martinez'' 0 False 0)))
   \<and> length (filter (\<lambda>m. m = PremiumUserMsg ''Olivia Martinez'')
        (snd (addPointsSeq [30, 30, 5] (new_User ''u1'' ''Olivia Martinez'' 0 False 0)))) = 1"
  using addPoints_premium_once[of "new_PremiumUser ''u0'' ''Ann'' 0 False 0" 10 "[]"
      "new_User ''u1'' ''Olivia Martinez'' 0 False 0" "[30, 30, 5]"]
  by (simp add: new_User_def new_PremiumUser_def addPoints_def User_checkForUpgrade_def
      upgradeToPremium_def Let_def)

section \<open>Charging\<close>

text \<open>
  Claim C10. \<open>processPayment\<close> for a rider, a fare and a driver lowers the balance of the
  rider's payment details by the fare and raises the driver's profit by the fare. The
  riders (busy flag, points, tier), the driver's availability, score and tier, the ride
  registry and the rides are as before; the resulting state differs from the given one
  in that one balance and that one profit only.
\<close>

theorem processPayment_frame:
  "processPayment u f (Some d) s =
     (None, s\<lparr>payStore := (payStore s)(paymentDetails (userStore s u) :=
                  (payStore s (paymentDetails (userStore s u)))
                    \<lparr>balance := balance (payStore s (paymentDetails (userStore s u))) - f\<rparr>),
              driverStore := (driverStore s)(d :=
                  (driverStore s d)\<lparr>profit := profit (driverStore s d) + f\<rparr>)\<rparr>)
   \<and> balance (payStore (snd (processPayment u f (Some d) s)) (paymentDetails (userStore s u)))
       = balance (payStore s (paymentDetails (userStore s u))) - f
   \<and> profit (driverStore (snd (processPayment u f (Some d) s)) d) = profit (driverStore s d) + f
   \<and> userStore (snd (processPayment u f (Some d) s)) = userStore s
   \<and> isAvailable (driverStore (snd (processPayment u f (Some d) s)) d) = isAvailable (driverStore s d)
   \<and> VIPRaiting (driverStore (snd (processPayment u f (Some d) s)) d) = VIPRaiting (driverStore s d)
   \<and> isVIP (driverStore (snd (processPayment u f (Some d) s)) d) = isVIP (driverStore s d)
   \<and> rides (snd (processPayment u f (Some d) s)) = rides s
   \<and> rideStore (snd (processPayment u f (Some d) s)) = rideStore s"
  by (simp add: processPayment_def updPay_def updDriver_def)

section \<open>Payment of a ride\<close>

lemmas oneRide_eval =
  oneRide_def new_User_def new_Driver_def payment_def processPayment_def processRide_def
  updPay_def updDriver_def updUser_def updRide_def console_log_def validatePayment_num
  User_PremiumUser_def Let_def

text \<open>
  Claim C1. \<open>payment\<close> validates and charges the fare of the ride and never reads the
  rider's tier, and nothing calls \<open>getDiscount\<close>: a Premium rider with a valid card,
  balance 1000 and fare 100 is left with 900 and the driver earns 100, where the claim
  says 910 and 90; with balance 95, enough for the discounted fare 90, validation fails.
\<close>

theorem payment_premium_full_fare:
  "isPremium (userStore (oneRide True False False 1000 (CardNum 1234567890123456)) 0)
   \<and> fare (rideStore (oneRide True False False 1000 (CardNum 1234567890123456)) 0) = 100
   \<and> fst (payment 0 (oneRide True False False 1000 (CardNum 1234567890123456))) = Inr True
   \<and> balance (payStore (snd (payment 0
        (oneRide True False False 1000 (CardNum 1234567890123456)))) 0) = 900
   \<and> profit (driverStore (snd (payment 0
        (oneRide True False False 1000 (CardNum 1234567890123456)))) 0) = 100
   \<and> fst (payment 0 (oneRide True False False 95 (CardNum 1234567890123456))) = Inr False"
  by (simp add: oneRide_eval)

section \<open>The VIP gate\<close>

text \<open>
  Claim C2. The gate of \<open>processRide\<close> reads the property \<^verbatim>\<open>PremiumUser\<close> of the rider,
  which no rider has, so it denies every ride of a VIP driver: a VIP driver with a
  Premium rider whose payment is valid ends with the ride still \<^verbatim>\<open>requested\<close>, after the
  rider has paid, where the claim says \<^verbatim>\<open>active\<close>.
\<close>

theorem processRide_vip_premium_denied:
  "isVIP (driverStore (oneRide True False True 1000 (CardNum 1234567890123456)) 0)
   \<and> isPremium (userStore (oneRide True False True 1000 (CardNum 1234567890123456)) 0)
   \<and> validatePayment (payStore (oneRide True False True 1000 (CardNum 1234567890123456)) 0) 100
   \<and> fst (processRide (\<lambda>k. 0) 0 (oneRide True False True 1000 (CardNum 1234567890123456))) = None
   \<and> status (rideStore (snd (processRide (\<lambda>k. 0) 0
        (oneRide True False True 1000 (CardNum 1234567890123456)))) 0) = ''requested''
   \<and> console (snd (processRide (\<lambda>k. 0) 0
        (oneRide True False True 1000 (CardNum 1234567890123456))))
       = [Paid ''Olivia Martinez'', VIPDenied ''Leanne Graham'' ''Olivia Martinez'']"
  by (simp add: oneRide_eval)

text \<open>
  What \<open>processRide\<close> does with a ride of a VIP driver, whoever the rider is: \<open>payment\<close>
  has run when the gate is reached, so the state is the one after the charge and the two
  lines printed when validation succeeds, and the given one with two lines printed when
  it fails. Nobody is marked busy in either case.
\<close>

lemma processRide_vip_driver:
  assumes "user (rideStore s ride) = Some u" and "driver (rideStore s ride) = Some d"
    and "isVIP (driverStore s d)"
  shows "processRide rnd ride s =
     (None,
      if validatePayment (payStore s (paymentDetails (userStore s u))) (fare (rideStore s ride))
      then console_log
             [Paid (u_name (userStore s u)),
              VIPDenied (d_name (driverStore s d)) (u_name (userStore s u))]
             (snd (processPayment u (fare (rideStore s ride)) (Some d) s))
      else console_log
             [FailedToPay (u_name (userStore s u)),
              VIPDenied (d_name (driverStore s d)) (u_name (userStore s u))] s)"
  using assms
  by (simp add: payment_def processPayment_def processRide_def
      updPay_def updDriver_def console_log_def User_PremiumUser_def Let_def)

text \<open>
  Claim C3. A ride of a VIP driver and a rider who is not Premium is denied, and nobody
  is marked busy, but \<open>processRide\<close> calls \<open>payment\<close> before the gate and gives nothing
  back: a Standard rider with a valid card and balance 1000 who meets a VIP driver is
  denied after the fare 100 has moved from the balance (900 after) to the driver's profit
  (100 after), where the claim says that balance and earnings are unchanged.
\<close>

theorem processRide_ineligible_charged:
  "isVIP (driverStore (oneRide False False True 1000 (CardNum 1234567890123456)) 0)
   \<and> \<not> isPremium (userStore (oneRide False False True 1000 (CardNum 1234567890123456)) 0)
   \<and> balance (payStore (oneRide False False True 1000 (CardNum 1234567890123456)) 0) = 1000
   \<and> balance (payStore (snd (processRide (\<lambda>k. 0) 0
        (oneRide False False True 1000 (CardNum 1234567890123456)))) 0) = 900
   \<and> profit (driverStore (oneRide False False True 1000 (CardNum 1234567890123456)) 0) = 0
   \<and> profit (driverStore (snd (processRide (\<lambda>k. 0) 0
        (oneRide False False True 1000 (CardNum 1234567890123456)))) 0) = 100"
  by (simp add: oneRide_eval)

section \<open>The guard of generateRides\<close>

lemma generateRide_guard:
  "locations s = [] \<or> users s = [] \<or> drivers s = [] \<Longrightarrow> generateRide rnd s = (Inl InitError, s)"
  by (auto simp add: generateRide_def)

lemma generateRide_no_guard:
  "locations s \<noteq> [] \<Longrightarrow> users s \<noteq> [] \<Longrightarrow> drivers s \<noteq> [] \<Longrightarrow>
     fst (generateRide rnd s) \<noteq> Inl InitError"
  by (simp add: generateRide_def Let_def split_beta split: option.split)

lemma rideLoop_guard:
  "locations s = [] \<or> users s = [] \<or> drivers s = [] \<Longrightarrow> of_nat i < numRides \<Longrightarrow>
     rideLoop rnd i numRides s = (Some InitError, s)"
  by (subst rideLoop.simps) (simp add: generateRide_guard)

lemma rideLoop_none: "numRides \<le> of_nat i \<Longrightarrow> rideLoop rnd i numRides s = (None, s)"
  by (subst rideLoop.simps) simp

text \<open>
  The guard itself: a turn of the generator fails with the initialization error exactly
  when the array of locations, of riders or of drivers is empty, whatever the busy and
  availability flags; it then leaves the state as it was, and the batch ends there.
\<close>

lemma generateRide_guard_iff:
  "(fst (generateRide rnd s) = Inl InitError
      \<longleftrightarrow> locations s = [] \<or> users s = [] \<or> drivers s = [])
   \<and> (locations s = [] \<or> users s = [] \<or> drivers s = [] \<longrightarrow>
        generateRide rnd s = (Inl InitError, s)
        \<and> (of_nat i < numRides \<longrightarrow> rideLoop rnd i numRides s = (Some InitError, s))
        \<and> (0 < numRides \<longrightarrow> processMultipleRides rnd numRides s = (Some InitError, s)))"
  using generateRide_guard[of s rnd] generateRide_no_guard[of s rnd]
    rideLoop_guard[of s i numRides rnd] rideLoop_guard[of s 0 numRides rnd]
  by (auto simp add: processMultipleRides_def)

text \<open>
  Claim C5. The guard looks at the arrays of all riders and all drivers, while the rider
  and the driver are picked among those who are not busy. With one location, one
  available driver and one rider who is in a ride, the pool of riders is empty and the
  generator does not fail with the initialization error: it registers a ride without a
  rider and fails with a type error. With one rider who is free and one driver who is not
  available, the ride without a driver is handed on, the rider is debited the fare 2, and
  the batch fails with a type error.
\<close>

theorem generateRide_empty_pool_type_error:
  "locations (oneRide False True False 1000 (CardNum 1234567890123456)) \<noteq> []
   \<and> rides (oneRide False True False 1000 (CardNum 1234567890123456)) = [0]
   \<and> filter (\<lambda>u. \<not> inRide (userStore (oneRide False True False 1000 (CardNum 1234567890123456)) u))
        (users (oneRide False True False 1000 (CardNum 1234567890123456))) = []
   \<and> fst (generateRide (\<lambda>k. 0) (oneRide False True False 1000 (CardNum 1234567890123456)))
       = Inl TypeError
   \<and> fst (processMultipleRides (\<lambda>k. 0) 1 (oneRide False True False 1000 (CardNum 1234567890123456)))
       = Some TypeError
   \<and> rides (snd (processMultipleRides (\<lambda>k. 0) 1
        (oneRide False True False 1000 (CardNum 1234567890123456)))) = [0, 1]
   \<and> fst (processMultipleRides (\<lambda>k. 0) 1
        (updDriver 0 (\<lambda>x. x\<lparr>isAvailable := False\<rparr>)
           (oneRide False False False 1000 (CardNum 1234567890123456)))) = Some TypeError
   \<and> balance (payStore (snd (processMultipleRides (\<lambda>k. 0) 1
        (updDriver 0 (\<lambda>x. x\<lparr>isAvailable := False\<rparr>)
           (oneRide False False False 1000 (CardNum 1234567890123456))))) 0) = 998"
  by (simp add: processMultipleRides_def rideLoop.simps[of _ 0] generateRide_def oneRide_def
      new_User_def new_Driver_def randomIndexMethod_def Math_random_def rideRequest_def
      advance_def processRide_def payment_def processPayment_def validatePayment_num
      updPay_def updDriver_def console_log_def Let_def)

section \<open>The batch\<close>

lemma keeps_refl: "keeps s s"
  by (simp add: keeps_def)

lemma keeps_trans: "keeps s s1 \<Longrightarrow> keeps s1 s2 \<Longrightarrow> keeps s s2"
  by (auto simp add: keeps_def)

lemma keeps_payment: "keeps s (snd (payment ride s))"
  by (simp add: keeps_def payment_def processPayment_def updPay_def updDriver_def console_log_def Let_def
      split: option.split)

lemma keeps_addRaiting_console:
  "keeps s (console_log (snd (addRaiting r x)) (updDriver d (\<lambda>y. fst (addRaiting r x)) s))"
  by (simp add: keeps_def console_log_def updDriver_def)

lemma keeps_completeRide: "keeps s (completeRide t s)"
  by (simp add: keeps_def completeRide_def updUser_def updDriver_def updRide_def console_log_def Let_def
      split_beta split: option.split)

lemma keeps_now: "keeps s (s\<lparr>now := t\<rparr>)"
  by (simp add: keeps_def)

lemma keeps_foldl:
  "keeps s (foldl (\<lambda>a x. completeRide x (a\<lparr>now := fireAt x\<rparr>)) s ts)"
proof (induction ts arbitrary: s)
  case Nil
  show ?case by (simp add: keeps_refl)
next
  case (Cons t ts)
  have "keeps s (completeRide t (s\<lparr>now := fireAt t\<rparr>))"
    by (rule keeps_trans[OF keeps_now keeps_completeRide])
  from keeps_trans[OF this Cons.IH] show ?case by simp
qed

lemma keeps_advance: "keeps s (advance t s)"
proof -
  let ?s1 = "s\<lparr>timers := filter (\<lambda>x. \<not> fireAt x \<le> t) (timers s)\<rparr>"
  have a: "keeps s ?s1" by (simp add: keeps_def)
  have b: "keeps ?s1 (foldl (\<lambda>a x. completeRide x (a\<lparr>now := fireAt x\<rparr>)) ?s1
             (sort_key fireAt (filter (\<lambda>x. fireAt x \<le> t) (timers s))))"
    by (rule keeps_foldl)
  have "keeps s ((foldl (\<lambda>a x. completeRide x (a\<lparr>now := fireAt x\<rparr>)) ?s1
             (sort_key fireAt (filter (\<lambda>x. fireAt x \<le> t) (timers s))))\<lparr>now := t\<rparr>)"
    by (rule keeps_trans[OF keeps_trans[OF a b] keeps_now])
  then show ?thesis by (simp add: advance_def Let_def)
qed

lemma nextRef_completeRide: "nextRef (completeRide t s) = nextRef s"
  by (simp add: completeRide_def updUser_def updDriver_def updRide_def console_log_def Let_def
      split_beta split: option.split)

lemma nextRef_foldl:
  "nextRef (foldl (\<lambda>a x. completeRide x (a\<lparr>now := fireAt x\<rparr>)) s ts) = nextRef s"
  by (induction ts arbitrary: s) (simp_all add: nextRef_completeRide)

lemma nextRef_advance: "nextRef (advance t s) = nextRef s"
  by (simp add: advance_def Let_def nextRef_foldl)

lemma keeps_generateRide: "keeps s (snd (generateRide rnd s))"
  by (simp add: keeps_def generateRide_def randomIndexMethod_def Math_random_def rideRequest_def
      console_log_def Let_def split_beta split: option.split)

lemma keeps_rideCompleted: "keeps s (rideCompleted rnd ride s)"
  by (simp add: keeps_def rideCompleted_def Math_random_def Let_def split_beta)

lemma keeps_User_addPoints: "keeps s (User_addPoints u p s)"
  by (simp add: keeps_def User_addPoints_def console_log_def updUser_def split_beta)

lemma keeps_upd:
  "keeps s (updDriver d f s)" "keeps s (updUser u g s)" "keeps s (updRide r h s)" "keeps s (console_log ms s)"
  by (simp_all add: keeps_def updDriver_def updUser_def updRide_def console_log_def)

lemma keeps_processRide: "keeps s (snd (processRide rnd ride s))"
proof -
  let ?s1 = "snd (payment ride s)"
  have p: "keeps s ?s1" by (rule keeps_payment)
  have acc: "keeps ?s1 (rideCompleted rnd ride (User_addPoints u pts
        (console_log ms (updRide ride h (updUser u g (updDriver d f ?s1))))))" for u pts ms h g d f
    by (intro keeps_trans[OF _ keeps_rideCompleted] keeps_trans[OF _ keeps_User_addPoints]
        keeps_trans[OF _ keeps_upd(4)] keeps_trans[OF _ keeps_upd(3)]
        keeps_trans[OF _ keeps_upd(2)] keeps_upd(1))
  have "keeps ?s1 (snd (processRide rnd ride s))"
    using acc
    by (cases "payment ride s")
      (auto simp add: processRide_def Let_def keeps_refl keeps_upd split: sum.split option.split)
  with p show ?thesis by (rule keeps_trans)
qed

lemma keeps_rideLoop: "keeps s (snd (rideLoop rnd i numRides s))"
proof (induction rnd i numRides s rule: rideLoop.induct)
  case (1 rnd i numRides s)
  show ?case
  proof (cases "of_nat i < numRides")
    case False
    then show ?thesis by (subst rideLoop.simps) (simp add: keeps_refl)
  next
    case True
    obtain g s1 where g: "generateRide rnd s = (g, s1)" by (cases "generateRide rnd s")
    have k1: "keeps s s1" using keeps_generateRide[of s rnd] g by simp
    show ?thesis
    proof (cases g)
      case (Inl e)
      with True g k1 show ?thesis by (subst rideLoop.simps) simp
    next
      case (Inr ride)
      obtain r s2 where r: "processRide rnd ride (advance (now s1 + 2000) s1) = (r, s2)"
        by (cases "processRide rnd ride (advance (now s1 + 2000) s1)")
      have k2: "keeps s s2"
        using keeps_trans[OF keeps_trans[OF k1 keeps_advance[of s1 "now s1 + 2000"]]
            keeps_processRide[of "advance (now s1 + 2000) s1" rnd ride]] r by simp
      show ?thesis
      proof (cases r)
        case (Some e)
        with True g Inr r k2 show ?thesis by (subst rideLoop.simps) simp
      next
        case None
        have "keeps s2 (snd (rideLoop rnd (Suc i) numRides s2))"
          using "1.IH"[OF True g[symmetric] Inr r[symmetric] None] .
        with k2 have "keeps s (snd (rideLoop rnd (Suc i) numRides s2))" by (rule keeps_trans)
        with True g Inr r None show ?thesis by (subst rideLoop.simps) simp
      qed
    qed
  qed
qed

lemma console_startApp:
  "\<exists>ms. console (startApp rnd latency response (JNumber n) s) = console s @ AppStarted # ms"
proof -
  let ?s1 = "console_log [AppStarted] s"
  let ?s2 = "fetchDrivers latency response ?s1"
  have "\<exists>ms. console ?s2 = console ?s1 @ ms"
    using keeps_advance[of ?s1 "now ?s1 + latency"]
    by (auto simp add: fetchDrivers_def keeps_def console_log_def Let_def split: Response.split)
  moreover have "\<exists>ms. console (snd (processMultipleRides rnd n ?s2)) = console ?s2 @ ms"
    using keeps_rideLoop[of ?s2 rnd 0 n] by (simp add: keeps_def processMultipleRides_def)
  ultimately obtain ms1 ms2 where
    "console (snd (processMultipleRides rnd n ?s2)) = console s @ AppStarted # ms1 @ ms2"
    by (auto simp add: console_log_def)
  then show ?thesis
    by (cases "processMultipleRides rnd n ?s2")
      (auto simp add: startApp_def console_log_def Let_def split: option.split)
qed

lemma drivers_startApp:
  "drivers (startApp rnd latency (FetchOk ds) (JNumber n) s)
     = map (\<lambda>k. nextRef s + k) [0..<length ds]"
proof -
  let ?s1 = "console_log [AppStarted] s"
  let ?s2 = "fetchDrivers latency (FetchOk ds) ?s1"
  have "drivers ?s2 = map (\<lambda>k. nextRef s + k) [0..<length ds]"
    by (simp add: fetchDrivers_def Let_def nextRef_advance console_log_def)
  moreover have "drivers (snd (processMultipleRides rnd n ?s2)) = drivers ?s2"
    using keeps_rideLoop[of ?s2 rnd 0 n] by (simp add: keeps_def processMultipleRides_def)
  ultimately show ?thesis
    by (cases "processMultipleRides rnd n ?s2")
      (auto simp add: startApp_def console_log_def Let_def split: option.split)
qed

lemma advance_no_timers: "timers s = [] \<Longrightarrow> advance t s = s\<lparr>now := t\<rparr>"
  by (simp add: advance_def)

lemma startApp_no_rides:
  "n \<le> 0 \<Longrightarrow> startApp rnd latency response (JNumber n) s
     = fetchDrivers latency response (s\<lparr>console := console s @ [AppStarted]\<rparr>)"
  by (simp add: startApp_def console_log_def processMultipleRides_def rideLoop_none)

text \<open>
  The check of \<open>startApp\<close>: for an input whose type is not number it prints
  "Input should be number!" and does nothing else. For every input of type number,
  whatever its sign, the start is announced next on the console, and when the directory
  service answers, the array of drivers holds the new drivers at the end.
\<close>

lemma startApp_typeof_check:
  "(typeof v \<noteq> ''number'' \<longrightarrow>
      startApp rnd latency response v s = s\<lparr>console := console s @ [InputShouldBeNumber]\<rparr>)
   \<and> (\<exists>ms. console (startApp rnd latency response (JNumber n) s) = console s @ AppStarted # ms)
   \<and> drivers (startApp rnd latency (FetchOk ds) (JNumber n) s)
       = map (\<lambda>k. nextRef s + k) [0..<length ds]"
  using console_startApp[of rnd latency response n s] drivers_startApp[of rnd latency ds n s]
  by (simp add: startApp_def console_log_def)

text \<open>
  Claim C7. Input that is not a number is rejected before any work, but a count that is
  not positive is not: \<open>- 3\<close> and 0 are of type number, so \<open>startApp\<close> announces the
  start and fetches the drivers (the array of drivers is replaced) and prints no
  rejection, where the claim says that such input is rejected with a message before any
  work begins.
\<close>

theorem startApp_nonpositive_started:
  "numberValue (JNumber (- 3)) \<le> 0
   \<and> drivers (oneRide False False False 1000 (CardNum 1234567890123456)) = [0]
   \<and> drivers (startApp (\<lambda>k. 0) 0 (FetchOk [(1, ''Leanne Graham'')]) (JNumber (- 3))
        (oneRide False False False 1000 (CardNum 1234567890123456))) = [1]
   \<and> console (startApp (\<lambda>k. 0) 0 (FetchOk [(1, ''Leanne Graham'')]) (JNumber (- 3))
        (oneRide False False False 1000 (CardNum 1234567890123456))) = [AppStarted]
   \<and> drivers (startApp (\<lambda>k. 0) 0 (FetchOk [(1, ''Leanne Graham'')]) (JNumber 0)
        (oneRide False False False 1000 (CardNum 1234567890123456))) = [1]
   \<and> console (startApp (\<lambda>k. 0) 0 (FetchOk [(1, ''Leanne Graham'')]) (JNumber 0)
        (oneRide False False False 1000 (CardNum 1234567890123456))) = [AppStarted]"
  by (simp add: startApp_no_rides fetchDrivers_def advance_no_timers oneRide_def Let_def)

section \<open>An accepted ride, from payment to completion\<close>

text \<open>
  The model run on a ride that is accepted: the Standard rider pays 100 to the Regular
  driver, both become busy, the ride is active, the rider earns 50 points and with them
  the Premium tier, and the completion is scheduled 5000 ms later with the rating 3.
  When that time has passed, both are free again, the ride is completed, and the first
  rating 3 makes the score 7.5 and the driver a VIP.
\<close>

lemma frac_half: "frac (1 / 2 :: rat) = 1 / 2"
  by (simp add: frac_unique_iff)

lemma acceptedRide_eq:
  "acceptedRide = (oneRide False False False 1000 (CardNum 1234567890123456))
     \<lparr>userStore := (userStore (oneRide False False False 1000 (CardNum 1234567890123456)))
         (0 := (new_User ''u1'' ''Olivia Martinez'' 0 True 50)\<lparr>isPremium := True\<rparr>),
      driverStore := (driverStore (oneRide False False False 1000 (CardNum 1234567890123456)))
         (0 := (new_Driver 1 ''Leanne Graham'' 100 False)),
      payStore := (payStore (oneRide False False False 1000 (CardNum 1234567890123456)))
         (0 := \<lparr>cardNumber = CardNum 1234567890123456, expirationDate = 111, balance = 900\<rparr>),
      rideStore := (rideStore (oneRide False False False 1000 (CardNum 1234567890123456)))
         (0 := (rideStore (oneRide False False False 1000 (CardNum 1234567890123456)) 0)
                 \<lparr>status := ''active''\<rparr>),
      timers := [\<lparr>fireAt = 5000, t_user = Some 0, t_driver = Some 0, t_ride = 0,
                  t_raiting = 3\<rparr>],
      randomCalls := 1,
      console := [Paid ''Olivia Martinez'', Accepted ''Leanne Graham'' ''Olivia Martinez'',
         PointsEarned ''Olivia Martinez'' 50, PremiumUserMsg ''Olivia Martinez'']\<rparr>"
  by (simp add: acceptedRide_def oneRide_eval Math_random_def frac_half User_addPoints_def
      addPoints_def User_checkForUpgrade_def upgradeToPremium_def rideCompleted_def
      timeoutDelay_def floor_eq_iff)

lemma acceptedRide_completed:
  "advance 5000 (acceptedRide\<lparr>now := 2000\<rparr>) = acceptedRide
     \<lparr>now := 5000, timers := [],
      userStore := (userStore acceptedRide)(0 := (userStore acceptedRide 0)\<lparr>inRide := False\<rparr>),
      driverStore := (driverStore acceptedRide)
         (0 := (driverStore acceptedRide 0)
                 \<lparr>isAvailable := True, isVIP := True, VIPRaiting := 15 / 2\<rparr>),
      rideStore := (rideStore acceptedRide)
         (0 := (rideStore acceptedRide 0)\<lparr>status := ''completed''\<rparr>),
      console := console acceptedRide @ [Completed ''Leanne Graham'' ''Olivia Martinez'',
         VIPDriverMsg ''Leanne Graham'']\<rparr>"
  by (simp add: acceptedRide_eq advance_def completeRide_def addRaiting_def
      Driver_checkForUpgrade_def upgradetoVIP_def downgradeToRegular_def oneRide_def
      new_User_def new_Driver_def updDriver_def updUser_def updRide_def console_log_def Let_def)

end
